theory Spec2Isabelle
  imports Main "HOL-Library.Word"
begin

section \<open>The disclaim-responsibility shim of responsibility.c\<close>

text \<open>
  The translation unit defines one macro and one function:
  \<^verbatim>\<open>
  #define POSIX_SPAWN_SETDISCLAIM 1
  extern int responsibility_spawnattrs_setdisclaim(posix_spawnattr_t *attr, int disclaim);

  int terminator_spawnattr_setdisclaim(posix_spawnattr_t *attr, int disclaim) {
      return responsibility_spawnattrs_setdisclaim(attr, disclaim);
  }
  \<close>
  It has no global or static variable, no loop and no branch.
\<close>

subsection \<open>Data\<close>

text \<open>A C \<^verbatim>\<open>int\<close> is a 32-bit word (\<open>sint\<close> reads it as signed); the argument
  \<^verbatim>\<open>posix_spawnattr_t *attr\<close> is a 64-bit address.\<close>

type_synonym cint = "32 word"
type_synonym spawnattr_ptr = "64 word"



text \<open>
  The symbol \<^verbatim>\<open>responsibility_spawnattrs_setdisclaim\<close> is declared \<^verbatim>\<open>extern\<close> and
  defined by the operating system, so it is a parameter of the model. Everything it can
  read or write (the memory behind the handle, OS-private state) is a world of an
  arbitrary type \<open>'w\<close>. A call that returns yields its status and the world it leaves;
  a call with no defined outcome (it hangs, the process dies, or its behaviour is
  undefined) yields \<open>None\<close>.
\<close>

type_synonym 'w outcome = "(cint \<times> 'w) option"
type_synonym 'w setdisclaim_fn = "spawnattr_ptr \<Rightarrow> cint \<Rightarrow> 'w \<Rightarrow> 'w outcome"

subsection \<open>The function\<close>

definition terminator_spawnattr_setdisclaim ::
  "'w setdisclaim_fn \<Rightarrow> spawnattr_ptr \<Rightarrow> cint \<Rightarrow> 'w \<Rightarrow> 'w outcome" where
  "terminator_spawnattr_setdisclaim responsibility_spawnattrs_setdisclaim attr disclaim w =
     responsibility_spawnattrs_setdisclaim attr disclaim w"

subsection \<open>Observations of an outcome\<close>

definition status_of :: "'w outcome \<Rightarrow> cint option" where
  "status_of out = (case out of None \<Rightarrow> None | Some (r, w) \<Rightarrow> Some r)"

definition world_of :: "'w outcome \<Rightarrow> 'w option" where
  "world_of out = (case out of None \<Rightarrow> None | Some (r, w) \<Rightarrow> Some w)"

text \<open>A call failed when it returned a nonzero status.\<close>

definition failed :: "'w outcome \<Rightarrow> bool" where
  "failed out = (case out of None \<Rightarrow> False | Some (r, w) \<Rightarrow> r \<noteq> 0)"

subsection \<open>A caller making several calls in a row\<close>

fun run_calls ::
  "'w setdisclaim_fn \<Rightarrow> (spawnattr_ptr \<times> cint) list \<Rightarrow> 'w \<Rightarrow> (cint list \<times> 'w) option" where
  "run_calls f [] w = Some ([], w)"
| "run_calls f ((attr, disclaim) # cs) w =
     (case f attr disclaim w of
        None \<Rightarrow> None
      | Some (r, w') \<Rightarrow>
          (case run_calls f cs w' of
             None \<Rightarrow> None
           | Some (rs, w'') \<Rightarrow> Some (r # rs, w'')))"

subsection \<open>Test doubles standing for the OS symbol\<close>

text \<open>\<open>recording os\<close> behaves as \<open>os\<close> and appends the arguments of each call that
  returns to a log kept beside the world.\<close>

definition recording ::
  "'w setdisclaim_fn \<Rightarrow> ('w \<times> (spawnattr_ptr \<times> cint) list) setdisclaim_fn" where
  "recording os attr disclaim wl =
     (case os attr disclaim (fst wl) of
        None \<Rightarrow> None
      | Some (r, w') \<Rightarrow> Some (r, (w', snd wl @ [(attr, disclaim)])))"

text \<open>A table of initialised attribute objects with the disclaim flag of each. The
  double sets the flag of an initialised handle and returns 0; it returns 22
  (\<^verbatim>\<open>EINVAL\<close>) for a handle it does not know.\<close>

type_synonym attr_table = "spawnattr_ptr \<rightharpoonup> bool"

definition stub_setdisclaim :: "attr_table setdisclaim_fn" where
  "stub_setdisclaim attr disclaim tbl =
     (case tbl attr of
        None \<Rightarrow> Some (22, tbl)
      | Some flag \<Rightarrow> Some (0, tbl(attr \<mapsto> (disclaim \<noteq> 0))))"

text \<open>A double that touches nothing and answers with a status computed from its two
  arguments alone.\<close>

definition untouching :: "(spawnattr_ptr \<Rightarrow> cint \<Rightarrow> cint) \<Rightarrow> 'w setdisclaim_fn" where
  "untouching f attr disclaim w = Some (f attr disclaim, w)"



subsection \<open>The OS primitive as the specification describes it\<close>

text \<open>Modelled from the spec: the body of \<^verbatim>\<open>responsibility_spawnattrs_setdisclaim\<close>,
  which the source only declares. The specification says of it: the handle must have
  been produced by the attributes-initialisation facility and not released, and the
  behaviour is undefined otherwise; it sets the disclaim flag on the given spawn
  attributes, where nonzero means disclaim and zero means do not; it only mutates the
  state behind the handle (it creates and releases nothing, the caller owns the
  handle); zero signals success. The world is the table of the initialised, unreleased
  attribute objects with the flag of each.\<close>

definition responsibility_spawnattrs_setdisclaim :: "attr_table setdisclaim_fn" where
  "responsibility_spawnattrs_setdisclaim attr disclaim tbl =
     (case tbl attr of
        None \<Rightarrow> None
      | Some flag \<Rightarrow> Some (0, tbl(attr \<mapsto> (disclaim \<noteq> 0))))"

section \<open>Properties\<close>

lemma terminator_is_os:
  "terminator_spawnattr_setdisclaim os = os"
  by (rule ext)+ (simp add: terminator_spawnattr_setdisclaim_def)

lemma run_calls_through_shim:
  "run_calls (terminator_spawnattr_setdisclaim os) cs w = run_calls os cs w"
proof (induction cs arbitrary: w)
  case Nil
  show ?case by simp
next
  case (Cons c cs)
  obtain attr disclaim where c: "c = (attr, disclaim)" by (cases c)
  show ?case
    unfolding c
    by (simp add: terminator_spawnattr_setdisclaim_def Cons.IH split: option.split prod.split)
qed

text \<open>C1: for every handle and every disclaim value the status the shim returns is
  exactly the status the OS primitive returns for that call (and the shim returns no
  status when the primitive does not return).\<close>

theorem status_passes_through:
  "status_of (terminator_spawnattr_setdisclaim os attr disclaim w) = status_of (os attr disclaim w)"
  by (simp add: terminator_spawnattr_setdisclaim_def)


text \<open>C3: the shim raises no error of its own and cannot fail independently of the OS
  call. For every primitive and every input the shim returns status \<open>r\<close> leaving world
  \<open>w'\<close> exactly when the primitive does (the status is the primitive's integer, verbatim),
  it has no outcome exactly when the primitive has none, it failed exactly when the
  primitive failed, and with a primitive that succeeds on every input it succeeds on
  every input.\<close>

theorem no_local_error:
  "(terminator_spawnattr_setdisclaim os attr disclaim w = Some (r, w')) =
     (os attr disclaim w = Some (r, w'))
   \<and> (terminator_spawnattr_setdisclaim os attr disclaim w = None) = (os attr disclaim w = None)
   \<and> failed (terminator_spawnattr_setdisclaim os attr disclaim w) = failed (os attr disclaim w)
   \<and> terminator_spawnattr_setdisclaim (untouching (\<lambda>a d. 0)) attr disclaim w = Some (0, w)"
  by (simp add: terminator_spawnattr_setdisclaim_def untouching_def)

text \<open>C4: the shim allocates nothing, frees nothing and does not change the handle, and
  the handle is valid after the call. With the OS primitive as the specification
  describes it, a call on an initialised handle hands that very handle to the primitive
  once, returns, and leaves the set of initialised attribute objects as it was, the
  handle still among them and every other attribute object untouched; and with any
  primitive the world after the shim is the world the primitive leaves.\<close>

theorem handle_stays_valid:
  assumes "tbl attr = Some flag"
  shows "\<exists>r tbl'.
           terminator_spawnattr_setdisclaim (recording responsibility_spawnattrs_setdisclaim)
             attr disclaim (tbl, log) = Some (r, (tbl', log @ [(attr, disclaim)]))
           \<and> dom tbl' = dom tbl \<and> tbl' attr \<noteq> None
           \<and> (\<forall>a. a \<noteq> attr \<longrightarrow> tbl' a = tbl a)
           \<and> world_of (terminator_spawnattr_setdisclaim os attr disclaim w) =
               world_of (os attr disclaim w)"
proof -
  have indom: "attr \<in> dom tbl" using assms by (simp add: domI)
  have call: "terminator_spawnattr_setdisclaim (recording responsibility_spawnattrs_setdisclaim)
      attr disclaim (tbl, log) =
      Some (0, (tbl(attr \<mapsto> (disclaim \<noteq> 0)), log @ [(attr, disclaim)]))"
    using assms
    by (simp add: terminator_spawnattr_setdisclaim_def recording_def
        responsibility_spawnattrs_setdisclaim_def)
  have same: "dom (tbl(attr \<mapsto> (disclaim \<noteq> 0))) = dom tbl"
    using indom by (simp add: insert_absorb)
  have shim: "world_of (terminator_spawnattr_setdisclaim os attr disclaim w) =
      world_of (os attr disclaim w)"
    by (simp add: terminator_spawnattr_setdisclaim_def)
  from call same shim show ?thesis by simp
qed

theorem handle_stays_valid_witness:
  "[0x1000 \<mapsto> False, 0x2000 \<mapsto> True] (0x1000 :: spawnattr_ptr) = Some False
   \<and> (\<exists>r tbl'.
         terminator_spawnattr_setdisclaim (recording responsibility_spawnattrs_setdisclaim)
           0x1000 1 ([0x1000 \<mapsto> False, 0x2000 \<mapsto> True], []) = Some (r, (tbl', [(0x1000, 1)]))
         \<and> dom tbl' = dom [(0x1000 :: spawnattr_ptr) \<mapsto> False, 0x2000 \<mapsto> True]
         \<and> tbl' 0x1000 \<noteq> None \<and> tbl' 0x2000 = Some True)"
proof -
  have valid: "[0x1000 \<mapsto> False, 0x2000 \<mapsto> True] (0x1000 :: spawnattr_ptr) = Some False"
    by simp
  from handle_stays_valid [where tbl = "[0x1000 \<mapsto> False, 0x2000 \<mapsto> True]"
      and attr = "0x1000" and flag = False and disclaim = 1 and log = "[]"
      and os = stub_setdisclaim and w = "Map.empty", OF valid]
  obtain r tbl' where
    call: "terminator_spawnattr_setdisclaim (recording responsibility_spawnattrs_setdisclaim)
        0x1000 1 ([0x1000 \<mapsto> False, 0x2000 \<mapsto> True], []) = Some (r, (tbl', [(0x1000, 1)]))"
    and same: "dom tbl' = dom [(0x1000 :: spawnattr_ptr) \<mapsto> False, 0x2000 \<mapsto> True]"
    and live: "tbl' 0x1000 \<noteq> None"
    and rest: "\<forall>a. a \<noteq> 0x1000 \<longrightarrow>
        tbl' a = [(0x1000 :: spawnattr_ptr) \<mapsto> False, 0x2000 \<mapsto> True] a"
    unfolding append_Nil by blast
  from rest have other: "tbl' 0x2000 = Some True" by simp
  from valid call same live other show ?thesis by blast
qed

text \<open>C5: the shim keeps no state of its own. Two invocations with the same handle and
  the same flag, in any two worlds in which the OS primitive gives the same status, give
  the same status.\<close>

theorem deterministic:
  assumes "status_of (os attr disclaim w1) = status_of (os attr disclaim w2)"
  shows "status_of (terminator_spawnattr_setdisclaim os attr disclaim w1) =
         status_of (terminator_spawnattr_setdisclaim os attr disclaim w2)"
  using assms by (simp add: terminator_spawnattr_setdisclaim_def)

theorem deterministic_witness:
  "status_of (stub_setdisclaim 0x1000 1 [0x1000 \<mapsto> False]) =
     status_of (stub_setdisclaim 0x1000 1 [0x1000 \<mapsto> True, 0x2000 \<mapsto> False])
   \<and> status_of (terminator_spawnattr_setdisclaim stub_setdisclaim 0x1000 1 [0x1000 \<mapsto> False]) =
     status_of (terminator_spawnattr_setdisclaim stub_setdisclaim 0x1000 1
        [0x1000 \<mapsto> True, 0x2000 \<mapsto> False])"
proof -
  have same: "status_of (stub_setdisclaim 0x1000 1 [0x1000 \<mapsto> False]) =
     status_of (stub_setdisclaim 0x1000 1 [0x1000 \<mapsto> True, 0x2000 \<mapsto> False])"
    by (simp add: stub_setdisclaim_def status_of_def)
  from deterministic [of stub_setdisclaim "0x1000" 1 "[0x1000 \<mapsto> False]"
      "[0x1000 \<mapsto> True, 0x2000 \<mapsto> False]", OF same] same
  show ?thesis by simp
qed

text \<open>C6: with the flag \<open>false\<close> on a handle whose disclaim flag is already false the
  call is a no-op. With the OS primitive as the specification describes it, the shim
  returns 0 and leaves the table of attribute objects exactly as it was; the recording
  double shows the one call \<open>(attr, 0)\<close> of the primitive behind it.\<close>

theorem false_on_false_is_noop:
  assumes "tbl attr = Some False"
  shows "terminator_spawnattr_setdisclaim responsibility_spawnattrs_setdisclaim attr 0 tbl =
           Some (0, tbl)
         \<and> terminator_spawnattr_setdisclaim (recording responsibility_spawnattrs_setdisclaim)
             attr 0 (tbl, log) = Some (0, (tbl, log @ [(attr, 0)]))"
proof -
  have idem: "tbl(attr \<mapsto> False) = tbl"
    using assms by (simp add: fun_upd_idem)
  show ?thesis
    using assms idem
    by (simp add: terminator_spawnattr_setdisclaim_def recording_def
        responsibility_spawnattrs_setdisclaim_def)
qed

theorem false_on_false_is_noop_witness:
  "[0x1000 \<mapsto> False] (0x1000 :: spawnattr_ptr) = Some False
   \<and> terminator_spawnattr_setdisclaim responsibility_spawnattrs_setdisclaim 0x1000 0
         [0x1000 \<mapsto> False] = Some (0, [0x1000 \<mapsto> False])
   \<and> terminator_spawnattr_setdisclaim (recording responsibility_spawnattrs_setdisclaim)
         0x1000 0 ([0x1000 \<mapsto> False], []) = Some (0, ([0x1000 \<mapsto> False], [(0x1000, 0)]))"
proof -
  have flag: "[0x1000 \<mapsto> False] (0x1000 :: spawnattr_ptr) = Some False"
    by simp
  from false_on_false_is_noop [of "[0x1000 \<mapsto> False]" "0x1000" "[]", OF flag] flag
  show ?thesis by simp
qed

text \<open>C7: every invocation returns, provided the call of the OS primitive returns: the
  body is one call, with no loop, recursion, retry or wait around it.\<close>

theorem returns_when_os_returns:
  assumes "os attr disclaim w = Some out"
  shows "\<exists>out'. terminator_spawnattr_setdisclaim os attr disclaim w = Some out'"
  using assms by (simp add: terminator_spawnattr_setdisclaim_def)

theorem returns_when_os_returns_witness:
  "stub_setdisclaim 0x2000 1 [0x1000 \<mapsto> False] = Some (22, [0x1000 \<mapsto> False])
   \<and> (\<exists>out'. terminator_spawnattr_setdisclaim stub_setdisclaim 0x2000 1 [0x1000 \<mapsto> False] =
         Some out')"
proof -
  have ret: "stub_setdisclaim 0x2000 1 [0x1000 \<mapsto> False] = Some (22, [0x1000 \<mapsto> False])"
    by (simp add: stub_setdisclaim_def)
  from returns_when_os_returns [of stub_setdisclaim "0x2000" 1 "[0x1000 \<mapsto> False]", OF ret] ret
  show ?thesis by simp
qed



text \<open>C10: the shim reads and writes nothing through the handle. With a primitive that
  touches nothing, the world after the shim is the world before it and the status does
  not depend on the world; with any primitive, the world the shim leaves is the world
  the primitive leaves.\<close>

theorem no_dereference:
  "terminator_spawnattr_setdisclaim (untouching f) attr disclaim w = Some (f attr disclaim, w)
   \<and> world_of (terminator_spawnattr_setdisclaim os attr disclaim w') = world_of (os attr disclaim w')"
  by (simp add: terminator_spawnattr_setdisclaim_def untouching_def)

end
